theory Spec2Isabelle
  imports Complex_Main
begin

section \<open>Data model (types.ts, database.types.ts, the SQL schema)\<close>








datatype SessionStatus = OPEN | CLOSED

datatype SessionMode = INVITE | SPLIT

text \<open>A row of \<open>einstand_sessions\<close>; a nullable column is an \<open>option\<close>.\<close>

record Session =
  id_s :: string
  title :: "string option"
  mode_s :: SessionMode
  price_wurst :: "rat option"
  price_pretzel :: "rat option"
  status :: SessionStatus
  admin_secret :: string
  created_at :: nat
  deleted_at :: "nat option"

text \<open>A row of \<open>einstand_entries\<close>.\<close>

record Entry =
  id_e :: string
  session_id :: string
  display_name :: string
  wurst_count :: int
  pretzel_count :: int
  created_at_e :: nat
  updated_at :: nat

section \<open>JavaScript operators used by the components\<close>

text \<open>\<open>x || 0\<close> on a number: a falsy number (zero) is replaced by \<open>0\<close>.\<close>

definition js_or0 :: "'a::zero \<Rightarrow> 'a" where
  "js_or0 x = (if x = 0 then 0 else x)"

text \<open>\<open>x || 0\<close> on a value of type \<open>number | null\<close>.\<close>

definition js_or0_null :: "rat option \<Rightarrow> rat" where
  "js_or0_null x = (case x of None \<Rightarrow> 0 | Some p \<Rightarrow> js_or0 p)"


section \<open>Summary (components/Summary.tsx)\<close>





subsection \<open>The version without mustard\<close>



subsection \<open>The version with the mustard computation\<close>












section \<open>ColleagueCard (components/ColleagueCard.tsx)\<close>


section \<open>AdminPage (pages/AdminPage.tsx): totals and what is displayed\<close>

record Totals =
  totalWurst :: int
  totalPretzel :: int
  totalCost :: rat

text \<open>\<open>session\<close> is \<open>Session | null\<close>; \<open>session?.mode === 'SPLIT'\<close> is false for \<open>null\<close>.\<close>

definition totals :: "Entry list \<Rightarrow> Session option \<Rightarrow> Totals" where
  "totals entries session =
     (let tw = foldl (\<lambda>sum e. sum + wurst_count e) 0 entries;
          tp = foldl (\<lambda>sum e. sum + pretzel_count e) 0 entries;
          tc = (case session of
                  None \<Rightarrow> 0
                | Some s \<Rightarrow>
                    if mode_s s = SPLIT
                    then of_int tw * js_or0_null (price_wurst s)
                         + of_int tp * js_or0_null (price_pretzel s)
                    else 0)
      in \<lparr>totalWurst = tw, totalPretzel = tp, totalCost = tc\<rparr>)"





section \<open>App (App.tsx): the handlers of the local state\<close>

datatype ToastType = info | success | error | warning

datatype ToastMessage =
    PlusEinsWurst "string option"
  | PlusEinsBrezel "string option"
  | ErstNamenAuswaehlen
  | AlleZaehlerZurueckgesetzt






section \<open>ColleagueList (components/ColleagueList.tsx): the handlers of the list\<close>




section \<open>The earlier ColleagueList (a second copy of components/ColleagueList.tsx)\<close>



section \<open>The database (README.md: schema, RPC functions, row level security)\<close>

record Database =
  einstand_sessions :: "Session list"
  einstand_entries :: "Entry list"

text \<open>
  \<open>UPDATE t SET ... WHERE ...\<close>: every row that satisfies the condition is rewritten, and
  \<open>ROW_COUNT\<close> is the number of those rows.
\<close>

definition sql_update :: "('r \<Rightarrow> bool) \<Rightarrow> ('r \<Rightarrow> 'r) \<Rightarrow> 'r list \<Rightarrow> 'r list \<times> nat" where
  "sql_update cond upd rows =
     (map (\<lambda>r. if cond r then upd r else r) rows, length (filter cond rows))"

subsection \<open>RPC functions (SECURITY DEFINER: they bypass row level security)\<close>

datatype db_error =
    Row_security_violation
  | Check_violation
  | Unique_violation
  | Invalid_text_representation
  | Undefined_function

text \<open>The \<open>WHERE\<close> clauses of the three functions.\<close>

definition close_session_where :: "string \<Rightarrow> string \<Rightarrow> Session \<Rightarrow> bool" where
  "close_session_where p_session_id p_admin_secret s =
     (id_s s = p_session_id \<and> admin_secret s = p_admin_secret
      \<and> deleted_at s = None \<and> status s = OPEN)"

definition delete_session_where :: "string \<Rightarrow> string \<Rightarrow> Session \<Rightarrow> bool" where
  "delete_session_where p_session_id p_admin_secret s =
     (id_s s = p_session_id \<and> admin_secret s = p_admin_secret \<and> deleted_at s = None)"

definition reopen_session_where :: "string \<Rightarrow> string \<Rightarrow> Session \<Rightarrow> bool" where
  "reopen_session_where p_session_id p_admin_secret s =
     (id_s s = p_session_id \<and> admin_secret s = p_admin_secret
      \<and> deleted_at s = None \<and> status s = CLOSED)"

text \<open>
  Every function declares \<open>v_found BOOLEAN\<close> and ends with
  \<open>GET DIAGNOSTICS v_found = ROW_COUNT; RETURN v_found > 0;\<close>.

  \<open>ROW_COUNT\<close> is a \<open>bigint\<close>. PostgreSQL has no cast from \<open>bigint\<close> to \<open>boolean\<close>, so
  PL/pgSQL assigns through the text of the number: \<open>0\<close> reads as false, \<open>1\<close> as true, and
  any other number is not the text of a boolean.
\<close>

definition plpgsql_assign_boolean :: "nat \<Rightarrow> db_error + bool" where
  "plpgsql_assign_boolean row_count =
     (if row_count = 0 then Inr False
      else if row_count = 1 then Inr True
      else Inl Invalid_text_representation)"

text \<open>
  \<open>v_found > 0\<close> compares a \<open>boolean\<close> with an \<open>integer\<close>. PostgreSQL has the operators
  \<open>boolean > boolean\<close> and \<open>integer > integer\<close> and no implicit cast between the two
  types, so it finds no operator for the expression when it first evaluates it:
  \<open>operator does not exist: boolean > integer\<close>.
\<close>

definition pg_gt_boolean_integer :: "bool \<Rightarrow> int \<Rightarrow> db_error + bool" where
  "pg_gt_boolean_integer v n = Inl Undefined_function"

text \<open>
  The end of a function: \<open>db\<close> is the database before the call, \<open>db'\<close> the database
  after the \<open>UPDATE\<close>. An error leaves the function, and with it the statement that
  called it, so what the \<open>UPDATE\<close> wrote is undone.
\<close>

definition return_found :: "Database \<Rightarrow> Database \<Rightarrow> nat \<Rightarrow> Database \<times> (db_error + bool)" where
  "return_found db db' row_count =
     (case plpgsql_assign_boolean row_count of
        Inl err \<Rightarrow> (db, Inl err)
      | Inr v_found \<Rightarrow>
          (case pg_gt_boolean_integer v_found 0 of
             Inl err \<Rightarrow> (db, Inl err)
           | Inr b \<Rightarrow> (db', Inr b)))"

definition close_session :: "Database \<Rightarrow> string \<Rightarrow> string \<Rightarrow> Database \<times> (db_error + bool)" where
  "close_session db p_session_id p_admin_secret =
     (let (rows, row_count) =
            sql_update (close_session_where p_session_id p_admin_secret)
                       (\<lambda>s. s\<lparr>status := CLOSED\<rparr>) (einstand_sessions db)
      in return_found db (db\<lparr>einstand_sessions := rows\<rparr>) row_count)"

text \<open>\<open>now\<close> is the value of \<open>now()\<close> at the call.\<close>

definition delete_session ::
    "Database \<Rightarrow> nat \<Rightarrow> string \<Rightarrow> string \<Rightarrow> Database \<times> (db_error + bool)" where
  "delete_session db now p_session_id p_admin_secret =
     (let (rows, row_count) =
            sql_update (delete_session_where p_session_id p_admin_secret)
                       (\<lambda>s. s\<lparr>deleted_at := Some now\<rparr>) (einstand_sessions db)
      in return_found db (db\<lparr>einstand_sessions := rows\<rparr>) row_count)"

definition reopen_session :: "Database \<Rightarrow> string \<Rightarrow> string \<Rightarrow> Database \<times> (db_error + bool)" where
  "reopen_session db p_session_id p_admin_secret =
     (let (rows, row_count) =
            sql_update (reopen_session_where p_session_id p_admin_secret)
                       (\<lambda>s. s\<lparr>status := OPEN\<rparr>) (einstand_sessions db)
      in return_found db (db\<lparr>einstand_sessions := rows\<rparr>) row_count)"

text \<open>A call of one of the three functions.\<close>

datatype rpc =
    Close_session string string
  | Delete_session nat string string
  | Reopen_session string string

fun run_rpc :: "Database \<Rightarrow> rpc \<Rightarrow> Database \<times> (db_error + bool)" where
  "run_rpc db (Close_session i k) = close_session db i k"
| "run_rpc db (Delete_session now i k) = delete_session db now i k"
| "run_rpc db (Reopen_session i k) = reopen_session db i k"

subsection \<open>Row level security policies and CHECK constraints of \<open>einstand_entries\<close>\<close>

definition entries_select_active_session :: "Database \<Rightarrow> Entry \<Rightarrow> bool" where
  "entries_select_active_session db e =
     (\<exists>s \<in> set (einstand_sessions db). id_s s = session_id e \<and> deleted_at s = None)"

definition entries_insert_open_session :: "Database \<Rightarrow> Entry \<Rightarrow> bool" where
  "entries_insert_open_session db e =
     (\<exists>s \<in> set (einstand_sessions db).
        id_s s = session_id e \<and> status s = OPEN \<and> deleted_at s = None)"

text \<open>The UPDATE policy has the same expression as \<open>USING\<close> and as \<open>WITH CHECK\<close>.\<close>

definition entries_update_open_session :: "Database \<Rightarrow> Entry \<Rightarrow> bool" where
  "entries_update_open_session db e =
     (\<exists>s \<in> set (einstand_sessions db).
        id_s s = session_id e \<and> status s = OPEN \<and> deleted_at s = None)"

definition entries_delete_open_session :: "Database \<Rightarrow> Entry \<Rightarrow> bool" where
  "entries_delete_open_session db e =
     (\<exists>s \<in> set (einstand_sessions db).
        id_s s = session_id e \<and> status s = OPEN \<and> deleted_at s = None)"

text \<open>\<open>CHECK (wurst_count >= 0)\<close> and \<open>CHECK (pretzel_count >= 0)\<close>.\<close>

definition entries_check :: "Entry \<Rightarrow> bool" where
  "entries_check e = (wurst_count e \<ge> 0 \<and> pretzel_count e \<ge> 0)"

text \<open>The payloads the pages send (\<open>EntryInsert\<close>, \<open>EntryUpdate\<close>); an absent field is \<open>None\<close>.\<close>

record EntryInsert =
  ins_session_id :: string
  ins_display_name :: string
  ins_wurst_count :: "int option"
  ins_pretzel_count :: "int option"

record EntryUpdate =
  upd_wurst_count :: "int option"
  upd_pretzel_count :: "int option"

text \<open>
  \<open>INSERT\<close> as the anonymous role: the column defaults fill the absent fields
  (\<open>new_id\<close> is the value of \<open>gen_random_uuid()\<close>), then the policy's \<open>WITH CHECK\<close>, the
  CHECK constraints and the primary key decide; a violation is an error and changes nothing.
\<close>

definition insert_entry :: "Database \<Rightarrow> nat \<Rightarrow> string \<Rightarrow> EntryInsert \<Rightarrow> db_error + Database" where
  "insert_entry db now new_id ins =
     (let e = \<lparr>id_e = new_id, session_id = ins_session_id ins,
                display_name = ins_display_name ins,
                wurst_count = (case ins_wurst_count ins of None \<Rightarrow> 0 | Some n \<Rightarrow> n),
                pretzel_count = (case ins_pretzel_count ins of None \<Rightarrow> 0 | Some n \<Rightarrow> n),
                created_at_e = now, updated_at = now\<rparr>
      in if \<not> entries_insert_open_session db e then Inl Row_security_violation
         else if \<not> entries_check e then Inl Check_violation
         else if new_id \<in> set (map id_e (einstand_entries db)) then Inl Unique_violation
         else Inr (db\<lparr>einstand_entries := einstand_entries db @ [e]\<rparr>))"

text \<open>
  \<open>UPDATE einstand_entries SET ... WHERE id = i\<close> as the anonymous role. Rows that fail
  the policy's \<open>USING\<close> are not visible to the statement; the trigger sets \<open>updated_at\<close>;
  a new row that fails \<open>WITH CHECK\<close> or a CHECK constraint is an error and changes nothing.
\<close>

definition apply_EntryUpdate :: "nat \<Rightarrow> EntryUpdate \<Rightarrow> Entry \<Rightarrow> Entry" where
  "apply_EntryUpdate now upd e =
     e\<lparr>wurst_count := (case upd_wurst_count upd of None \<Rightarrow> wurst_count e | Some n \<Rightarrow> n),
       pretzel_count := (case upd_pretzel_count upd of None \<Rightarrow> pretzel_count e | Some n \<Rightarrow> n),
       updated_at := now\<rparr>"

definition update_entry :: "Database \<Rightarrow> nat \<Rightarrow> EntryUpdate \<Rightarrow> string \<Rightarrow> db_error + Database" where
  "update_entry db now upd i =
     (let target = (\<lambda>e. id_e e = i \<and> entries_update_open_session db e);
          new = apply_EntryUpdate now upd
      in if \<exists>e \<in> set (einstand_entries db). target e \<and> \<not> entries_update_open_session db (new e)
         then Inl Row_security_violation
         else if \<exists>e \<in> set (einstand_entries db). target e \<and> \<not> entries_check (new e)
         then Inl Check_violation
         else Inr (db\<lparr>einstand_entries := fst (sql_update target new (einstand_entries db))\<rparr>))"

text \<open>\<open>DELETE FROM einstand_entries WHERE id = i\<close>: only rows that satisfy \<open>USING\<close> go.\<close>

definition delete_entry :: "Database \<Rightarrow> string \<Rightarrow> Database" where
  "delete_entry db i =
     db\<lparr>einstand_entries :=
          filter (\<lambda>e. \<not> (id_e e = i \<and> entries_delete_open_session db e)) (einstand_entries db)\<rparr>"

subsection \<open>What a client of the database can do\<close>

text \<open>
  \<open>INSERT INTO einstand_sessions\<close>: the policy \<open>sessions_insert_anon\<close> allows every row;
  the primary key refuses an id that is already there. There is no policy for UPDATE or
  DELETE on the sessions, so the three functions are the only way to change a row.
\<close>

definition insert_session :: "Database \<Rightarrow> Session \<Rightarrow> db_error + Database" where
  "insert_session db s =
     (if id_s s \<in> set (map id_s (einstand_sessions db)) then Inl Unique_violation
      else Inr (db\<lparr>einstand_sessions := einstand_sessions db @ [s]\<rparr>))"

datatype db_op =
    Rpc rpc
  | Insert_session Session
  | Insert_entry nat string EntryInsert
  | Update_entry nat EntryUpdate string
  | Delete_entry string

text \<open>A statement that fails leaves the database as it was.\<close>

fun run_op :: "Database \<Rightarrow> db_op \<Rightarrow> Database" where
  "run_op db (Rpc c) = fst (run_rpc db c)"
| "run_op db (Insert_session s) =
     (case insert_session db s of Inl err \<Rightarrow> db | Inr db' \<Rightarrow> db')"
| "run_op db (Insert_entry now new_id ins) =
     (case insert_entry db now new_id ins of Inl err \<Rightarrow> db | Inr db' \<Rightarrow> db')"
| "run_op db (Update_entry now upd i) =
     (case update_entry db now upd i of Inl err \<Rightarrow> db | Inr db' \<Rightarrow> db')"
| "run_op db (Delete_entry i) = delete_entry db i"

definition run_ops :: "Database \<Rightarrow> db_op list \<Rightarrow> Database" where
  "run_ops db ops = foldl run_op db ops"

section \<open>SessionPage (pages/SessionPage.tsx): the handlers of a hosted session\<close>






text \<open>The request, when there is one, reaches the database.\<close>

definition send_update :: "Database \<Rightarrow> nat \<Rightarrow> (EntryUpdate \<times> string) option \<Rightarrow> db_error + Database" where
  "send_update db now req =
     (case req of None \<Rightarrow> Inr db | Some (upd, i) \<Rightarrow> update_entry db now upd i)"

section \<open>The invariant of the counters\<close>



section \<open>useLocalStorageState (hooks/useLocalStorageState.ts)\<close>

text \<open>
  The values that JSON text denotes. An object is the list of its properties in
  insertion order.
\<close>

datatype jsval =
    JNull
  | JBool bool
  | JNum rat
  | JStr string
  | JArr "jsval list"
  | JObj "(string \<times> jsval) list"

text \<open>Writing a property: an existing key keeps its place, a new key goes to the end.\<close>

fun obj_put :: "(string \<times> jsval) list \<Rightarrow> string \<times> jsval \<Rightarrow> (string \<times> jsval) list" where
  "obj_put [] (k, v) = [(k, v)]"
| "obj_put ((k', v') # ps) (k, v) =
     (if k' = k then (k, v) # ps else (k', v') # obj_put ps (k, v))"


fun string_of_nat :: "nat \<Rightarrow> string" where
  "string_of_nat n =
     (if n < 10 then [char_of (48 + n)]
      else string_of_nat (n div 10) @ [char_of (48 + n mod 10)])"

declare string_of_nat.simps [simp del]




text \<open>
  \<open>localStorage\<close>: either it cannot be used (every access throws) or it maps keys to
  strings. A full quota is not modelled.
\<close>

datatype js_exception = SecurityError | SyntaxError









section \<open>parseGermanNumber (utils/format.ts)\<close>

text \<open>A JavaScript number as far as the function tells values apart.\<close>

datatype jsnum = NaN | Finite rat | PosInfinity | NegInfinity

fun isNaN :: "jsnum \<Rightarrow> bool" where
  "isNaN NaN = True"
| "isNaN n = False"

text \<open>\<open>input.replace(',', '.')\<close>: a string pattern replaces its first occurrence only.\<close>

fun replace_first :: "char \<Rightarrow> char \<Rightarrow> string \<Rightarrow> string" where
  "replace_first a b [] = []"
| "replace_first a b (c # cs) = (if c = a then b # cs else c # replace_first a b cs)"

text \<open>The built-in \<open>parseFloat\<close> is a parameter.\<close>

definition parseGermanNumber :: "(string \<Rightarrow> jsnum) \<Rightarrow> string \<Rightarrow> jsnum" where
  "parseGermanNumber parseFloat input =
     (let normalized = replace_first (CHR '','') (CHR ''.'') input;
          parsed = parseFloat normalized
      in if isNaN parsed then Finite 0 else parsed)"

text \<open>
  One function that can stand for \<open>parseFloat\<close>: it reads blanks, a sign, digits and a
  fraction, as \<open>parseFloat\<close> does on plain decimal text, and gives \<open>NaN\<close> when no digit
  is found. (Exponents and \<open>Infinity\<close> are left out.)
\<close>

definition is_digit :: "char \<Rightarrow> bool" where
  "is_digit c = (48 \<le> (of_char c :: nat) \<and> (of_char c :: nat) \<le> 57)"

definition digits_value :: "string \<Rightarrow> nat" where
  "digits_value ds = foldl (\<lambda>v c. 10 * v + (of_char c - 48)) 0 ds"

definition parseFloat_decimal :: "string \<Rightarrow> jsnum" where
  "parseFloat_decimal s =
     (let t = dropWhile (\<lambda>c. c = CHR '' '') s;
          neg = (case t of [] \<Rightarrow> False | c # r \<Rightarrow> c = CHR ''-'');
          u = (case t of [] \<Rightarrow> [] | c # r \<Rightarrow> if c = CHR ''-'' \<or> c = CHR ''+'' then r else t);
          ip = takeWhile is_digit u;
          r = dropWhile is_digit u;
          fp = (case r of [] \<Rightarrow> [] | c # r' \<Rightarrow> if c = CHR ''.'' then takeWhile is_digit r' else []);
          v = of_nat (digits_value ip) + of_nat (digits_value fp) / 10 ^ length fp
      in if ip = [] \<and> fp = [] then NaN else Finite (if neg then - v else v))"

section \<open>A printer and a parser for JSON text\<close>

text \<open>
  One pair of functions that can stand for \<open>JSON.stringify\<close> and \<open>JSON.parse\<close>: JSON
  text without insignificant blanks, numbers as decimal fractions, strings with the
  escapes of the quote and the backslash.
\<close>

fun frac_digits :: "nat \<Rightarrow> nat \<Rightarrow> nat \<Rightarrow> string" where
  "frac_digits 0 r d = []"
| "frac_digits (Suc f) r d =
     (if r = 0 then []
      else char_of (48 + (10 * r) div d) # frac_digits f ((10 * r) mod d) d)"

definition show_rat :: "rat \<Rightarrow> string" where
  "show_rat q =
     (let (n, d) = quotient_of q;
          a = nat \<bar>n\<bar>;
          r = a mod nat d
      in (if n < 0 then ''-'' else [])
         @ string_of_nat (a div nat d)
         @ (if r = 0 then [] else CHR ''.'' # frac_digits 17 r (nat d)))"

definition quote_char :: char where
  "quote_char = CHR 0x22"

definition backslash_char :: char where
  "backslash_char = CHR 0x5C"

definition show_string :: "string \<Rightarrow> string" where
  "show_string s =
     quote_char
     # concat (map (\<lambda>c. if c = quote_char \<or> c = backslash_char then [backslash_char, c] else [c]) s)
     @ [quote_char]"

fun join_comma :: "string list \<Rightarrow> string" where
  "join_comma [] = []"
| "join_comma [x] = x"
| "join_comma (x # y # ys) = x @ CHR '','' # join_comma (y # ys)"

fun JSON_stringify_text :: "jsval \<Rightarrow> string"
  and stringify_elements :: "jsval list \<Rightarrow> string list"
  and stringify_members :: "(string \<times> jsval) list \<Rightarrow> string list" where
  "JSON_stringify_text JNull = ''null''"
| "JSON_stringify_text (JBool b) = (if b then ''true'' else ''false'')"
| "JSON_stringify_text (JNum q) = show_rat q"
| "JSON_stringify_text (JStr s) = show_string s"
| "JSON_stringify_text (JArr xs) = CHR ''['' # join_comma (stringify_elements xs) @ '']''"
| "JSON_stringify_text (JObj ps) = CHR ''{'' # join_comma (stringify_members ps) @ ''}''"
| "stringify_elements [] = []"
| "stringify_elements (x # xs) = JSON_stringify_text x # stringify_elements xs"
| "stringify_members [] = []"
| "stringify_members ((k, v) # ps) =
     (show_string k @ CHR '':'' # JSON_stringify_text v) # stringify_members ps"

definition skip_ws :: "string \<Rightarrow> string" where
  "skip_ws s = dropWhile (\<lambda>c. c = CHR '' '' \<or> c = CHR 0x0A \<or> c = CHR 0x0D \<or> c = CHR 0x09) s"

text \<open>The text after an opening quote, up to the closing quote.\<close>

fun parse_string_body :: "string \<Rightarrow> (string \<times> string) option" where
  "parse_string_body [] = None"
| "parse_string_body (c # cs) =
     (if c = quote_char then Some ([], cs)
      else if c = backslash_char
      then (case cs of
              [] \<Rightarrow> None
            | e # cs' \<Rightarrow> map_option (\<lambda>(t, r). (e # t, r)) (parse_string_body cs'))
      else map_option (\<lambda>(t, r). (c # t, r)) (parse_string_body cs))"

definition parse_number :: "string \<Rightarrow> (rat \<times> string) option" where
  "parse_number s =
     (let neg = (s \<noteq> [] \<and> hd s = CHR ''-'');
          u = (if neg then tl s else s);
          ip = takeWhile is_digit u;
          r = dropWhile is_digit u;
          has_frac = (r \<noteq> [] \<and> hd r = CHR ''.'');
          fp = (if has_frac then takeWhile is_digit (tl r) else []);
          rest = (if has_frac then dropWhile is_digit (tl r) else r);
          v = of_nat (digits_value ip) + of_nat (digits_value fp) / 10 ^ length fp
      in if ip = [] \<or> (has_frac \<and> fp = []) then None
         else Some (if neg then - v else v, rest))"

text \<open>The first argument bounds the depth of the recursion.\<close>

fun parse_value :: "nat \<Rightarrow> string \<Rightarrow> (jsval \<times> string) option"
  and parse_elements :: "nat \<Rightarrow> string \<Rightarrow> (jsval list \<times> string) option"
  and parse_members :: "nat \<Rightarrow> string \<Rightarrow> ((string \<times> jsval) list \<times> string) option" where
  "parse_value 0 s = None"
| "parse_value (Suc f) s =
     (let t = skip_ws s
      in if take 4 t = ''null'' then Some (JNull, drop 4 t)
         else if take 4 t = ''true'' then Some (JBool True, drop 4 t)
         else if take 5 t = ''false'' then Some (JBool False, drop 5 t)
         else if t \<noteq> [] \<and> hd t = quote_char
         then map_option (\<lambda>(str, r). (JStr str, r)) (parse_string_body (tl t))
         else if t \<noteq> [] \<and> hd t = CHR ''[''
         then (if take 1 (skip_ws (tl t)) = '']'' then Some (JArr [], tl (skip_ws (tl t)))
               else map_option (\<lambda>(xs, r). (JArr xs, r)) (parse_elements f (tl t)))
         else if t \<noteq> [] \<and> hd t = CHR ''{''
         then (if take 1 (skip_ws (tl t)) = ''}'' then Some (JObj [], tl (skip_ws (tl t)))
               else map_option (\<lambda>(ps, r). (JObj (foldl obj_put [] ps), r))
                      (parse_members f (tl t)))
         else map_option (\<lambda>(q, r). (JNum q, r)) (parse_number t))"
| "parse_elements 0 s = None"
| "parse_elements (Suc f) s =
     (case parse_value f s of
        None \<Rightarrow> None
      | Some (v, r) \<Rightarrow>
          (let t = skip_ws r
           in if take 1 t = '','' then map_option (\<lambda>(vs, r'). (v # vs, r')) (parse_elements f (tl t))
              else if take 1 t = '']'' then Some ([v], tl t)
              else None))"
| "parse_members 0 s = None"
| "parse_members (Suc f) s =
     (let t = skip_ws s
      in if t \<noteq> [] \<and> hd t = quote_char
         then (case parse_string_body (tl t) of
                 None \<Rightarrow> None
               | Some (k, r1) \<Rightarrow>
                   (let t1 = skip_ws r1
                    in if take 1 t1 = '':''
                       then (case parse_value f (tl t1) of
                               None \<Rightarrow> None
                             | Some (v, r2) \<Rightarrow>
                                 (let t2 = skip_ws r2
                                  in if take 1 t2 = '',''
                                     then map_option (\<lambda>(ps, r'). ((k, v) # ps, r'))
                                            (parse_members f (tl t2))
                                     else if take 1 t2 = ''}'' then Some ([(k, v)], tl t2)
                                     else None))
                       else None))
         else None)"


section \<open>SceneErrorBoundary (components/SceneErrorBoundary.tsx)\<close>












section \<open>Mustard jars\<close>









section \<open>Totals and what the cards display\<close>













lemma totals_no_session: "totalCost (totals entries None) = 0"
  by (simp add: totals_def Let_def)








section \<open>The handlers of the local state\<close>





section \<open>The counters never go below 0\<close>
























section \<open>parseGermanNumber\<close>

lemma replace_first_absent: "a \<notin> set s \<Longrightarrow> replace_first a b s = s"
  by (induction s) auto

lemma replace_first_present:
  "a \<notin> set xs \<Longrightarrow> replace_first a b (xs @ a # ys) = xs @ b # ys"
  by (induction xs) auto

text \<open>
  Claim C8. For every \<open>parseFloat\<close> and every input, \<open>parseGermanNumber\<close> returns a
  number that is not \<open>NaN\<close>: it parses the input with its first comma replaced by a dot
  (an input without a comma is parsed as it is); when that parse is \<open>NaN\<close> it returns
  0, otherwise it returns what was parsed.
\<close>

theorem parseGermanNumber_not_NaN:
  "\<not> isNaN (parseGermanNumber parseFloat input)
   \<and> (isNaN (parseFloat (replace_first (CHR '','') (CHR ''.'') input)) \<longrightarrow>
        parseGermanNumber parseFloat input = Finite 0)
   \<and> (\<not> isNaN (parseFloat (replace_first (CHR '','') (CHR ''.'') input)) \<longrightarrow>
        parseGermanNumber parseFloat input
        = parseFloat (replace_first (CHR '','') (CHR ''.'') input))
   \<and> (CHR '','' \<notin> set input \<longrightarrow> replace_first (CHR '','') (CHR ''.'') input = input)
   \<and> (CHR '','' \<notin> set xs \<longrightarrow>
        replace_first (CHR '','') (CHR ''.'') (xs @ CHR '','' # ys) = xs @ CHR ''.'' # ys)"
  by (simp add: parseGermanNumber_def Let_def replace_first_absent replace_first_present)


theorem parseGermanNumber_not_NaN_witness:
  "\<not> isNaN (parseFloat_decimal (replace_first (CHR '','') (CHR ''.'') ''2,50''))
   \<and> parseGermanNumber parseFloat_decimal ''2,50'' = Finite (5 / 2)
   \<and> isNaN (parseFloat_decimal (replace_first (CHR '','') (CHR ''.'') ''abc''))
   \<and> parseGermanNumber parseFloat_decimal ''abc'' = Finite 0
   \<and> CHR '','' \<notin> set ''abc''
   \<and> CHR '','' \<notin> set ''2''
   \<and> replace_first (CHR '','') (CHR ''.'') ''2,50'' = ''2.50''"
proof -
  have a: "replace_first (CHR '','') (CHR ''.'') ''2,50'' = ''2.50''"
    using parseGermanNumber_not_NaN [where xs = "''2''" and ys = "''50''"] by simp
  have b: "replace_first (CHR '','') (CHR ''.'') ''abc'' = ''abc''"
    using parseGermanNumber_not_NaN [where input = "''abc''"] by simp
  have c: "parseFloat_decimal ''2.50'' = Finite (5 / 2)" by code_simp
  have d: "parseFloat_decimal ''abc'' = NaN" by code_simp
  have e: "parseGermanNumber parseFloat_decimal ''2,50'' = Finite (5 / 2)"
    using parseGermanNumber_not_NaN [of parseFloat_decimal "''2,50''"] a c by simp
  have f: "parseGermanNumber parseFloat_decimal ''abc'' = Finite 0"
    using parseGermanNumber_not_NaN [of parseFloat_decimal "''abc''"] b d by simp
  from a b c d e f show ?thesis by simp
qed

section \<open>The error boundary of the scene\<close>





section \<open>The state in local storage\<close>











section \<open>The RPC functions\<close>

lemma sql_update_none:
  "\<forall>r \<in> set rows. \<not> cond r \<Longrightarrow> sql_update cond upd rows = (rows, 0)"
  by (induction rows) (simp_all add: sql_update_def)

text \<open>What the \<open>UPDATE\<close> statements select: nothing without the secret, nothing deleted.\<close>

lemma where_wrong_secret:
  assumes "\<forall>s \<in> set rows. id_s s = i \<longrightarrow> admin_secret s \<noteq> k"
  shows "sql_update (close_session_where i k) upd rows = (rows, 0)"
    and "sql_update (delete_session_where i k) upd rows = (rows, 0)"
    and "sql_update (reopen_session_where i k) upd rows = (rows, 0)"
  using assms
  by (auto intro!: sql_update_none
      simp add: close_session_where_def delete_session_where_def reopen_session_where_def)

lemma where_deleted:
  assumes "deleted_at s \<noteq> None"
  shows "\<not> close_session_where i k s" and "\<not> delete_session_where i k s"
    and "\<not> reopen_session_where i k s"
  using assms
  by (simp_all add: close_session_where_def delete_session_where_def reopen_session_where_def)

text \<open>No call gets past its \<open>RETURN\<close> statement.\<close>

lemma return_found_raises: "\<exists>err. return_found db db' n = (db, Inl err)"
  by (simp add: return_found_def plpgsql_assign_boolean_def pg_gt_boolean_integer_def)

lemma return_found_one_row:
  "n \<le> 1 \<Longrightarrow> return_found db db' n = (db, Inl Undefined_function)"
  by (simp add: return_found_def plpgsql_assign_boolean_def pg_gt_boolean_integer_def)

lemma run_rpc_raises: "\<exists>err. run_rpc db c = (db, Inl err)"
  by (cases c)
    (simp_all add: close_session_def delete_session_def reopen_session_def return_found_raises
      split: prod.splits)

lemma run_rpc_unchanged: "fst (run_rpc db c) = db"
  using run_rpc_raises [of db c] by auto

lemma filter_id_le_1:
  "distinct (map id_s rows) \<Longrightarrow> length (filter (\<lambda>s. id_s s = i \<and> P s) rows) \<le> 1"
proof (induction rows)
  case Nil
  then show ?case by simp
next
  case (Cons r rows)
  show ?case
  proof (cases "id_s r = i")
    case True
    with Cons.prems have "i \<notin> id_s ` set rows" by simp
    then have "\<forall>s \<in> set rows. id_s s \<noteq> i" by blast
    then have "filter (\<lambda>s. id_s s = i \<and> P s) rows = []"
      by (simp add: filter_empty_conv)
    then show ?thesis by simp
  next
    case False
    with Cons show ?thesis by simp
  qed
qed

lemma run_rpc_primary_key:
  assumes "distinct (map id_s (einstand_sessions db))"
  shows "run_rpc db c = (db, Inl Undefined_function)"
proof (cases c)
  case (Close_session i k)
  have "length (filter (close_session_where i k) (einstand_sessions db)) \<le> 1"
    using filter_id_le_1 [OF assms, of i "\<lambda>s. admin_secret s = k \<and> deleted_at s = None \<and> status s = OPEN"]
    by (simp add: close_session_where_def [abs_def])
  then show ?thesis
    using Close_session by (simp add: close_session_def sql_update_def return_found_one_row)
next
  case (Delete_session now i k)
  have "length (filter (delete_session_where i k) (einstand_sessions db)) \<le> 1"
    using filter_id_le_1 [OF assms, of i "\<lambda>s. admin_secret s = k \<and> deleted_at s = None"]
    by (simp add: delete_session_where_def [abs_def])
  then show ?thesis
    using Delete_session by (simp add: delete_session_def sql_update_def return_found_one_row)
next
  case (Reopen_session i k)
  have "length (filter (reopen_session_where i k) (einstand_sessions db)) \<le> 1"
    using filter_id_le_1 [OF assms, of i "\<lambda>s. admin_secret s = k \<and> deleted_at s = None \<and> status s = CLOSED"]
    by (simp add: reopen_session_where_def [abs_def])
  then show ?thesis
    using Reopen_session by (simp add: reopen_session_def sql_update_def return_found_one_row)
qed

text \<open>
  Claim C1, at a call with a wrong secret. The table holds one open session \<open>s1\<close> whose
  secret is \<open>k1\<close>. Called for \<open>s1\<close> with the secret \<open>bad\<close>, each of the three functions
  leaves the database as it was, but none of them returns false: the call ends with the
  error of the \<open>RETURN\<close> statement. (With the secret \<open>k1\<close> the call ends the same way.)
\<close>

theorem rpc_wrong_secret_raises:
  "close_session
     \<lparr>einstand_sessions =
        [\<lparr>id_s = ''s1'', title = None, mode_s = INVITE, price_wurst = None,
          price_pretzel = None, status = OPEN, admin_secret = ''k1'', created_at = 0,
          deleted_at = None\<rparr>],
      einstand_entries = []\<rparr> ''s1'' ''bad''
   = (\<lparr>einstand_sessions =
        [\<lparr>id_s = ''s1'', title = None, mode_s = INVITE, price_wurst = None,
          price_pretzel = None, status = OPEN, admin_secret = ''k1'', created_at = 0,
          deleted_at = None\<rparr>],
      einstand_entries = []\<rparr>, Inl Undefined_function)
   \<and> reopen_session
     \<lparr>einstand_sessions =
        [\<lparr>id_s = ''s1'', title = None, mode_s = INVITE, price_wurst = None,
          price_pretzel = None, status = OPEN, admin_secret = ''k1'', created_at = 0,
          deleted_at = None\<rparr>],
      einstand_entries = []\<rparr> ''s1'' ''bad''
   = (\<lparr>einstand_sessions =
        [\<lparr>id_s = ''s1'', title = None, mode_s = INVITE, price_wurst = None,
          price_pretzel = None, status = OPEN, admin_secret = ''k1'', created_at = 0,
          deleted_at = None\<rparr>],
      einstand_entries = []\<rparr>, Inl Undefined_function)
   \<and> delete_session
     \<lparr>einstand_sessions =
        [\<lparr>id_s = ''s1'', title = None, mode_s = INVITE, price_wurst = None,
          price_pretzel = None, status = OPEN, admin_secret = ''k1'', created_at = 0,
          deleted_at = None\<rparr>],
      einstand_entries = []\<rparr> 7 ''s1'' ''bad''
   = (\<lparr>einstand_sessions =
        [\<lparr>id_s = ''s1'', title = None, mode_s = INVITE, price_wurst = None,
          price_pretzel = None, status = OPEN, admin_secret = ''k1'', created_at = 0,
          deleted_at = None\<rparr>],
      einstand_entries = []\<rparr>, Inl Undefined_function)
   \<and> close_session
     \<lparr>einstand_sessions =
        [\<lparr>id_s = ''s1'', title = None, mode_s = INVITE, price_wurst = None,
          price_pretzel = None, status = OPEN, admin_secret = ''k1'', created_at = 0,
          deleted_at = None\<rparr>],
      einstand_entries = []\<rparr> ''s1'' ''k1''
   = (\<lparr>einstand_sessions =
        [\<lparr>id_s = ''s1'', title = None, mode_s = INVITE, price_wurst = None,
          price_pretzel = None, status = OPEN, admin_secret = ''k1'', created_at = 0,
          deleted_at = None\<rparr>],
      einstand_entries = []\<rparr>, Inl Undefined_function)"
  by (simp add: close_session_def reopen_session_def delete_session_def sql_update_def
      close_session_where_def reopen_session_where_def delete_session_where_def
      return_found_def plpgsql_assign_boolean_def pg_gt_boolean_integer_def)

section \<open>A deleted session is closed to clients\<close>

lemma filter_map_unchanged:
  assumes "\<And>x. x \<in> set xs \<Longrightarrow> P (f x) = P x" and "\<And>x. x \<in> set xs \<Longrightarrow> P x \<Longrightarrow> f x = x"
  shows "filter P (map f xs) = filter P xs"
  using assms by (induction xs) auto

lemma deleted_policies:
  assumes "\<forall>s \<in> set (einstand_sessions db). id_s s = i \<longrightarrow> deleted_at s \<noteq> None"
    and "session_id e = i"
  shows "\<not> entries_insert_open_session db e \<and> \<not> entries_update_open_session db e
         \<and> \<not> entries_delete_open_session db e \<and> \<not> entries_select_active_session db e"
  using assms
  by (auto simp add: entries_insert_open_session_def entries_update_open_session_def
      entries_delete_open_session_def entries_select_active_session_def)


text \<open>The invariant of a database in which session \<open>i\<close> exists and is deleted.\<close>

lemma run_op_deleted:
  assumes pk: "distinct (map id_s (einstand_sessions db))"
    and ex: "\<exists>s \<in> set (einstand_sessions db). id_s s = i"
    and del: "\<forall>s \<in> set (einstand_sessions db). id_s s = i \<longrightarrow> deleted_at s \<noteq> None"
  shows "distinct (map id_s (einstand_sessions (run_op db op)))
       \<and> filter (\<lambda>s. id_s s = i) (einstand_sessions (run_op db op))
         = filter (\<lambda>s. id_s s = i) (einstand_sessions db)
       \<and> filter (\<lambda>e. session_id e = i) (einstand_entries (run_op db op))
         = filter (\<lambda>e. session_id e = i) (einstand_entries db)"
proof (cases op)
  case (Rpc c)
  then show ?thesis using pk by (simp add: run_rpc_unchanged)
next
  case (Insert_session s)
  then show ?thesis using pk ex by (auto simp add: insert_session_def)
next
  case (Insert_entry now new_id ins)
  show ?thesis
  proof (cases "insert_entry db now new_id ins")
    case (Inl err)
    then show ?thesis using Insert_entry pk by simp
  next
    case (Inr db')
    then have "ins_session_id ins \<noteq> i"
      using deleted_policies [OF del, of "\<lparr>id_e = new_id, session_id = ins_session_id ins,
                display_name = ins_display_name ins,
                wurst_count = (case ins_wurst_count ins of None \<Rightarrow> 0 | Some n \<Rightarrow> n),
                pretzel_count = (case ins_pretzel_count ins of None \<Rightarrow> 0 | Some n \<Rightarrow> n),
                created_at_e = now, updated_at = now\<rparr>"]
      by (auto simp add: insert_entry_def Let_def split: if_splits)
    then show ?thesis
      using Inr Insert_entry pk by (auto simp add: insert_entry_def Let_def split: if_splits)
  qed
next
  case (Update_entry now upd j)
  show ?thesis
  proof (cases "update_entry db now upd j")
    case (Inl err)
    then show ?thesis using Update_entry pk by simp
  next
    case (Inr db')
    then have db': "db' = db\<lparr>einstand_entries :=
        map (\<lambda>e. if id_e e = j \<and> entries_update_open_session db e
                  then apply_EntryUpdate now upd e else e) (einstand_entries db)\<rparr>"
      by (simp add: update_entry_def Let_def sql_update_def split: if_splits)
    have "filter (\<lambda>e. session_id e = i)
            (map (\<lambda>e. if id_e e = j \<and> entries_update_open_session db e
                       then apply_EntryUpdate now upd e else e) (einstand_entries db))
          = filter (\<lambda>e. session_id e = i) (einstand_entries db)"
      using deleted_policies [OF del]
      by (intro filter_map_unchanged) (auto simp add: apply_EntryUpdate_def)
    then show ?thesis using Inr Update_entry pk db' by simp
  qed
next
  case (Delete_entry j)
  have "filter (\<lambda>e. session_id e = i)
          (filter (\<lambda>e. \<not> (id_e e = j \<and> entries_delete_open_session db e)) (einstand_entries db))
        = filter (\<lambda>e. session_id e = i) (einstand_entries db)"
    using deleted_policies [OF del] by (auto intro!: filter_cong)
  then show ?thesis using Delete_entry pk by (simp add: delete_entry_def)
qed

lemma run_ops_deleted:
  assumes "distinct (map id_s (einstand_sessions db))"
    and "\<exists>s \<in> set (einstand_sessions db). id_s s = i"
    and "\<forall>s \<in> set (einstand_sessions db). id_s s = i \<longrightarrow> deleted_at s \<noteq> None"
  shows "distinct (map id_s (einstand_sessions (run_ops db ops)))
       \<and> filter (\<lambda>s. id_s s = i) (einstand_sessions (run_ops db ops))
         = filter (\<lambda>s. id_s s = i) (einstand_sessions db)
       \<and> filter (\<lambda>e. session_id e = i) (einstand_entries (run_ops db ops))
         = filter (\<lambda>e. session_id e = i) (einstand_entries db)"
  using assms
proof (induction ops arbitrary: db)
  case Nil
  then show ?case by (simp add: run_ops_def)
next
  case (Cons op ops)
  let ?db1 = "run_op db op"
  have step: "distinct (map id_s (einstand_sessions ?db1))"
    "filter (\<lambda>s. id_s s = i) (einstand_sessions ?db1)
     = filter (\<lambda>s. id_s s = i) (einstand_sessions db)"
    "filter (\<lambda>e. session_id e = i) (einstand_entries ?db1)
     = filter (\<lambda>e. session_id e = i) (einstand_entries db)"
    using run_op_deleted [OF Cons.prems, of op] by simp_all
  have same: "{s \<in> set (einstand_sessions ?db1). id_s s = i}
              = {s \<in> set (einstand_sessions db). id_s s = i}"
    using arg_cong [OF step(2), of set] by simp
  have ex1: "\<exists>s \<in> set (einstand_sessions ?db1). id_s s = i"
    using Cons.prems(2) same by blast
  have del1: "\<forall>s \<in> set (einstand_sessions ?db1). id_s s = i \<longrightarrow> deleted_at s \<noteq> None"
    using Cons.prems(3) same by blast
  show ?case
    using Cons.IH [OF step(1) ex1 del1] step(2,3) by (simp add: run_ops_def)
qed

text \<open>
  What holds of a session whose \<open>deleted_at\<close> is set, whatever clients do afterwards:
  its row and its entries stay as they are, the policies for INSERT, UPDATE and DELETE
  are false for its entries, and an insert of an entry for it is refused.
\<close>

lemma deleted_session_closed:
  assumes pk: "distinct (map id_s (einstand_sessions db))"
    and ex: "\<exists>s \<in> set (einstand_sessions db). id_s s = i"
    and del: "\<forall>s \<in> set (einstand_sessions db). id_s s = i \<longrightarrow> deleted_at s \<noteq> None"
  shows "filter (\<lambda>s. id_s s = i) (einstand_sessions (run_ops db ops))
         = filter (\<lambda>s. id_s s = i) (einstand_sessions db)"
    and "filter (\<lambda>e. session_id e = i) (einstand_entries (run_ops db ops))
         = filter (\<lambda>e. session_id e = i) (einstand_entries db)"
    and "session_id e = i \<Longrightarrow>
           \<not> entries_insert_open_session (run_ops db ops) e
           \<and> \<not> entries_update_open_session (run_ops db ops) e
           \<and> \<not> entries_delete_open_session (run_ops db ops) e"
    and "ins_session_id ins = i \<Longrightarrow>
           insert_entry (run_ops db ops) now new_id ins = Inl Row_security_violation"
proof -
  let ?db = "run_ops db ops"
  note r = run_ops_deleted [OF pk ex del, of ops]
  from r show rows: "filter (\<lambda>s. id_s s = i) (einstand_sessions ?db)
                     = filter (\<lambda>s. id_s s = i) (einstand_sessions db)"
    and "filter (\<lambda>e. session_id e = i) (einstand_entries ?db)
         = filter (\<lambda>e. session_id e = i) (einstand_entries db)"
    by blast+
  have "{s \<in> set (einstand_sessions ?db). id_s s = i}
        = {s \<in> set (einstand_sessions db). id_s s = i}"
    using arg_cong [OF rows, of set] by simp
  with del have del': "\<forall>s \<in> set (einstand_sessions ?db). id_s s = i \<longrightarrow> deleted_at s \<noteq> None"
    by blast
  show "\<not> entries_insert_open_session ?db e
        \<and> \<not> entries_update_open_session ?db e
        \<and> \<not> entries_delete_open_session ?db e" if "session_id e = i"
    using deleted_policies [OF del' that] by blast
  show "insert_entry ?db now new_id ins = Inl Row_security_violation"
    if a: "ins_session_id ins = i"
    using deleted_policies [OF del', of "\<lparr>id_e = new_id, session_id = ins_session_id ins,
              display_name = ins_display_name ins,
              wurst_count = (case ins_wurst_count ins of None \<Rightarrow> 0 | Some n \<Rightarrow> n),
              pretzel_count = (case ins_pretzel_count ins of None \<Rightarrow> 0 | Some n \<Rightarrow> n),
              created_at_e = now, updated_at = now\<rparr>"] a
    by (simp add: insert_entry_def Let_def)
qed

text \<open>
  Claim C5, at the call that should delete a session. The table holds one open session
  \<open>s1\<close> whose secret is \<open>k1\<close>. \<open>delete_session\<close> for \<open>s1\<close> with \<open>k1\<close> does not return
  true and does not set \<open>deleted_at\<close>: the call ends with the error of the \<open>RETURN\<close>
  statement and the database is as it was. On a table in which \<open>deleted_at\<close> of \<open>s1\<close> is
  set, \<open>close_session\<close> for \<open>s1\<close> leaves the database as it was and ends with the same
  error; it does not return false.
\<close>

theorem delete_session_raises:
  "delete_session
     \<lparr>einstand_sessions =
        [\<lparr>id_s = ''s1'', title = None, mode_s = INVITE, price_wurst = None,
          price_pretzel = None, status = OPEN, admin_secret = ''k1'', created_at = 0,
          deleted_at = None\<rparr>],
      einstand_entries = []\<rparr> 7 ''s1'' ''k1''
   = (\<lparr>einstand_sessions =
        [\<lparr>id_s = ''s1'', title = None, mode_s = INVITE, price_wurst = None,
          price_pretzel = None, status = OPEN, admin_secret = ''k1'', created_at = 0,
          deleted_at = None\<rparr>],
      einstand_entries = []\<rparr>, Inl Undefined_function)
   \<and> close_session
     \<lparr>einstand_sessions =
        [\<lparr>id_s = ''s1'', title = None, mode_s = INVITE, price_wurst = None,
          price_pretzel = None, status = OPEN, admin_secret = ''k1'', created_at = 0,
          deleted_at = Some 7\<rparr>],
      einstand_entries = []\<rparr> ''s1'' ''k1''
   = (\<lparr>einstand_sessions =
        [\<lparr>id_s = ''s1'', title = None, mode_s = INVITE, price_wurst = None,
          price_pretzel = None, status = OPEN, admin_secret = ''k1'', created_at = 0,
          deleted_at = Some 7\<rparr>],
      einstand_entries = []\<rparr>, Inl Undefined_function)"
  by (simp add: close_session_def delete_session_def sql_update_def
      close_session_where_def delete_session_where_def
      return_found_def plpgsql_assign_boolean_def pg_gt_boolean_integer_def)

end
